theory Spec2Isabelle
  imports Main "HOL-Library.Word"
begin

unbundle bit_operations_syntax

section \<open>Data model\<close>

text \<open>
  The adapter of \<^verbatim>\<open>sendgrid-notification-adapter.ts\<close> translates one notification
  into one SendGrid mail request. Everything it touches besides its own fields is a
  collaborator: the template renderer, the backend, the attachment file handles and
  the mail client. Each collaborator call is recorded as an event, so that a result of
  \<open>send\<close> is the list of calls it made together with the value or error it settled with.
\<close>

type_synonym byte = "8 word"

text \<open>A thrown JavaScript \<^verbatim>\<open>Error\<close>, identified by its message.\<close>

datatype js_error = Error string

text \<open>\<^verbatim>\<open>JsonObject\<close>, the rendering context handed through to the template renderer.\<close>

datatype json =
    JNull
  | JBool bool
  | JNumber int
  | JString string
  | JArray "json list"
  | JObject "(string \<times> json) list"

type_synonym json_object = "(string \<times> json) list"

text \<open>
  An attachment file handle. Only \<^verbatim>\<open>read()\<close> is used by the adapter: \<open>read\<close> is what
  the promise returned by \<^verbatim>\<open>read()\<close> settles with (the bytes of the Buffer, or the
  rejection), and \<open>settles\<close> is the moment at which it does, relative to the other
  reads that are in flight at the same time.
\<close>

record attachment_file =
  read :: "js_error + byte list"
  settles :: nat

text \<open>\<^verbatim>\<open>StoredAttachment\<close>; \<open>afile\<close> is its \<^verbatim>\<open>file\<close> field.\<close>

record stored_attachment =
  filename :: string
  contentType :: string
  afile :: attachment_file

text \<open>
  A notification as \<open>send\<close> reads it. A field that may be missing on the JavaScript
  object is an option: \<open>nid\<close> is \<^verbatim>\<open>notification.id\<close> (\<open>None\<close> for
  \<^verbatim>\<open>undefined\<close> or \<^verbatim>\<open>null\<close>; identifiers are strings, as in the test suite),
  \<open>emailOrPhone\<close> is present exactly on one-off notifications, \<open>userId\<close> on
  account-bound ones.
\<close>

record notification =
  nid :: "string option"
  userId :: "string option"
  emailOrPhone :: "string option"
  attachments :: "stored_attachment list option"

record template =
  subject :: string
  body :: string

record sendgrid_config =
  apiKey :: string
  fromEmail :: string
  fromName :: "string option"

text \<open>The \<^verbatim>\<open>from\<close> field of \<^verbatim>\<open>MailDataRequired\<close>: a string or an \<^verbatim>\<open>{email, name}\<close> object.\<close>

datatype email_from = Bare string | EmailData (email: string) (name: string)

record attachment_data =
  att_filename :: string
  att_content :: string
  att_type :: string
  att_disposition :: string

record mail_data =
  mail_to :: string
  mail_from :: email_from
  mail_subject :: string
  mail_html :: string
  mail_attachments :: "attachment_data list option"

text \<open>The injected backend; the adapter only ever uses its recipient lookup.\<close>

record backend_ops =
  getUserEmailFromNotification :: "string option \<Rightarrow> js_error + string option"

record adapter =
  config :: sendgrid_config
  backend :: "backend_ops option"
  templateRenderer :: "notification \<Rightarrow> json_object \<Rightarrow> js_error + template"

text \<open>\<^verbatim>\<open>sgMail.send\<close>, the outbound call of the mail client.\<close>

type_synonym sg_mail = "mail_data \<Rightarrow> js_error + unit"

section \<open>Calls and promises\<close>

datatype event =
    RenderCall notification json_object
  | LookupCall "string option"
  | PrepareAttachmentsCall
  | ReadCall nat
  | MailSend mail_data

text \<open>
  An awaited computation: the collaborator calls it made, in order, and what it settled
  with (\<open>Inl\<close> a rejection, \<open>Inr\<close> a value).
\<close>

type_synonym 'a promise = "event list \<times> (js_error + 'a)"

definition resolve :: "'a \<Rightarrow> 'a promise" where
  "resolve x = ([], Inr x)"

definition reject :: "js_error \<Rightarrow> 'a promise" where
  "reject e = ([], Inl e)"

definition call :: "event \<Rightarrow> js_error + 'a \<Rightarrow> 'a promise" where
  "call ev r = ([ev], r)"

text \<open>\<^verbatim>\<open>const x = await m; k(x)\<close>: a rejection of \<open>m\<close> skips the rest of the function.\<close>

definition await :: "'a promise \<Rightarrow> ('a \<Rightarrow> 'b promise) \<Rightarrow> 'b promise" where
  "await m k =
     (case m of
        (tr, Inl e) \<Rightarrow> (tr, Inl e)
      | (tr, Inr x) \<Rightarrow> (case k x of (tr', r) \<Rightarrow> (tr @ tr', r)))"

text \<open>JavaScript truthiness of an optional string: missing and empty are both falsy.\<close>

definition truthy :: "string option \<Rightarrow> bool" where
  "truthy s = (case s of None \<Rightarrow> False | Some v \<Rightarrow> v \<noteq> [])"

section \<open>Base64\<close>

text \<open>
  \<^verbatim>\<open>content.toString('base64')\<close> on a Node Buffer: the standard alphabet, three bytes
  to four characters, padded with \<^verbatim>\<open>=\<close>.
\<close>

definition base64_alphabet :: string where
  "base64_alphabet =
     ''ABCDEFGHIJKLMNOPQRSTUVWXYZabcdefghijklmnopqrstuvwxyz0123456789+/''"

definition base64_char :: "byte \<Rightarrow> char" where
  "base64_char w = base64_alphabet ! unat (w AND 63)"

fun base64 :: "byte list \<Rightarrow> string" where
  "base64 [] = []"
| "base64 [a] =
     [base64_char (drop_bit 2 a), base64_char (push_bit 4 (a AND 3)), CHR ''='', CHR ''='']"
| "base64 [a, b] =
     [base64_char (drop_bit 2 a),
      base64_char (push_bit 4 (a AND 3) OR drop_bit 4 b),
      base64_char (push_bit 2 (b AND 15)),
      CHR ''='']"
| "base64 (a # b # c # rest) =
     base64_char (drop_bit 2 a)
     # base64_char (push_bit 4 (a AND 3) OR drop_bit 4 b)
     # base64_char (push_bit 2 (b AND 15) OR drop_bit 6 c)
     # base64_char (c AND 63)
     # base64 rest"

section \<open>The adapter\<close>

text \<open>
  \<^verbatim>\<open>Promise.all\<close> over promises that are all in flight: it rejects with the reason of
  the promise that rejects first (the earlier array index when two settle at the same
  moment), and otherwise fulfils with the values in array order.
\<close>

fun first_rejection :: "(nat \<times> (js_error + 'a)) list \<Rightarrow> (nat \<times> js_error) option" where
  "first_rejection [] = None"
| "first_rejection ((t, Inr v) # ps) = first_rejection ps"
| "first_rejection ((t, Inl e) # ps) =
     (case first_rejection ps of
        None \<Rightarrow> Some (t, e)
      | Some (t', e') \<Rightarrow> if t' < t then Some (t', e') else Some (t, e))"

fun fulfilled :: "(nat \<times> (js_error + 'a)) list \<Rightarrow> 'a list" where
  "fulfilled [] = []"
| "fulfilled ((t, Inr v) # ps) = v # fulfilled ps"
| "fulfilled ((t, Inl e) # ps) = fulfilled ps"

definition promise_all :: "(nat \<times> (js_error + 'a)) list \<Rightarrow> js_error + 'a list" where
  "promise_all ps =
     (case first_rejection ps of
        Some (t, e) \<Rightarrow> Inl e
      | None \<Rightarrow> Inr (fulfilled ps))"

text \<open>The body of the \<^verbatim>\<open>async (att) => ...\<close> callback of \<open>prepareAttachments\<close>.\<close>

definition prepare_one :: "stored_attachment \<Rightarrow> js_error + attachment_data" where
  "prepare_one att =
     (case read (afile att) of
        Inl e \<Rightarrow> Inl e
      | Inr content \<Rightarrow>
          Inr \<lparr>att_filename = filename att,
               att_content = base64 content,
               att_type = contentType att,
               att_disposition = ''attachment''\<rparr>)"

text \<open>
  \<open>attachments.map\<close> runs every callback up to its first \<^verbatim>\<open>await\<close>, so every
  \<^verbatim>\<open>read()\<close> is issued, in array order, before any of them settles.
\<close>

definition prepareAttachments :: "stored_attachment list \<Rightarrow> attachment_data list promise" where
  "prepareAttachments atts =
     (map ReadCall [0..<length atts],
      promise_all (map (\<lambda>att. (settles (afile att), prepare_one att)) atts))"

text \<open>
  Modelled from the spec: how the framework's error message prints the notification id
  it names. The message of the test suite ends with the id itself; an absent id prints
  as \<^verbatim>\<open>undefined\<close>.
\<close>

definition id_text :: "string option \<Rightarrow> string" where
  "id_text i = (case i of None \<Rightarrow> ''undefined'' | Some s \<Rightarrow> s)"

text \<open>
  Modelled from the spec: \<open>getRecipientEmail\<close> is inherited from the framework's
  \<^verbatim>\<open>BaseNotificationAdapter\<close>, whose source is not part of this repository. Section 4.1
  of the specification: a notification carrying \<^verbatim>\<open>emailOrPhone\<close> yields that address
  with no backend lookup; otherwise the injected backend is queried with the
  notification's id (\<open>getUserEmailFromNotification\<close>, as the test suite names the
  operation), and a lookup that yields no value fails with an error that identifies the
  notification id.
\<close>

definition getRecipientEmail :: "backend_ops \<Rightarrow> notification \<Rightarrow> string promise" where
  "getRecipientEmail b notification =
     (case emailOrPhone notification of
        Some address \<Rightarrow> resolve address
      | None \<Rightarrow>
          await (call (LookupCall (nid notification))
                   (getUserEmailFromNotification b (nid notification)))
            (\<lambda>userEmail.
               case userEmail of
                 None \<Rightarrow>
                   reject (Error (''User email not found for notification ''
                                  @ id_text (nid notification)))
               | Some address \<Rightarrow> resolve address))"

text \<open>\<^verbatim>\<open>SendgridNotificationAdapter.send\<close>, statement by statement.\<close>

definition send :: "sg_mail \<Rightarrow> adapter \<Rightarrow> notification \<Rightarrow> json_object \<Rightarrow> unit promise" where
  "send sgMail this notification context =
     (case backend this of
        None \<Rightarrow> reject (Error ''Backend not injected'')
      | Some b \<Rightarrow>
          await (call (RenderCall notification context)
                   (templateRenderer this notification context))
            (\<lambda>template.
          if \<not> truthy (nid notification)
          then reject (Error ''Notification ID is required'')
          else
          await (getRecipientEmail b notification)
            (\<lambda>recipientEmail.
          let mailData =
                \<lparr>mail_to = recipientEmail,
                 mail_from =
                   (case fromName (config this) of
                      None \<Rightarrow> Bare (fromEmail (config this))
                    | Some nm \<Rightarrow>
                        if nm \<noteq> [] then EmailData (fromEmail (config this)) nm
                        else Bare (fromEmail (config this))),
                 mail_subject = subject template,
                 mail_html = body template,
                 mail_attachments = None\<rparr>
          in
          await (case attachments notification of
                   None \<Rightarrow> resolve mailData
                 | Some atts \<Rightarrow>
                     if length atts > 0
                     then await (call PrepareAttachmentsCall (Inr ()))
                            (\<lambda>_. await (prepareAttachments atts)
                               (\<lambda>prepared.
                                  resolve (mailData\<lparr>mail_attachments := Some prepared\<rparr>)))
                     else resolve mailData)
            (\<lambda>mailData. call (MailSend mailData) (sgMail mailData)))))"

text \<open>The outbound mail calls of a trace, in order.\<close>

fun mail_calls :: "event list \<Rightarrow> mail_data list" where
  "mail_calls [] = []"
| "mail_calls (MailSend md # tr) = md # mail_calls tr"
| "mail_calls (ev # tr) = mail_calls tr"

section \<open>Test fixtures\<close>

text \<open>The fixtures of the repository's test suites, used to run the model.\<close>

definition test_config :: sendgrid_config where
  "test_config =
     \<lparr>apiKey = ''SG.test-api-key'', fromEmail = ''noreply@example.com'',
      fromName = Some ''Example App''\<rparr>"

definition ok_renderer :: "notification \<Rightarrow> json_object \<Rightarrow> js_error + template" where
  "ok_renderer n c = Inr \<lparr>subject = ''Test Subject'', body = ''<p>Test Body</p>''\<rparr>"

definition failing_renderer :: "notification \<Rightarrow> json_object \<Rightarrow> js_error + template" where
  "failing_renderer n c = Inl (Error ''Template not found'')"

definition mock_backend :: "string option \<Rightarrow> backend_ops" where
  "mock_backend answer = \<lparr>getUserEmailFromNotification = (\<lambda>i. Inr answer)\<rparr>"

definition mock_send :: sg_mail where
  "mock_send md = Inr ()"

definition regular_notification :: notification where
  "regular_notification =
     \<lparr>nid = Some ''456'', userId = Some ''user-789'', emailOrPhone = None,
      attachments = None\<rparr>"

definition one_off_notification :: notification where
  "one_off_notification =
     \<lparr>nid = Some ''123'', userId = None, emailOrPhone = Some ''oneoff@example.com'',
      attachments = None\<rparr>"

definition test_adapter :: adapter where
  "test_adapter =
     \<lparr>config = test_config, backend = Some (mock_backend (Some ''user@example.com'')),
      templateRenderer = ok_renderer\<rparr>"

definition pdf_attachment :: stored_attachment where
  "pdf_attachment =
     \<lparr>filename = ''test.pdf'', contentType = ''application/pdf'',
      afile = \<lparr>read = Inr [116, 101, 115, 116, 32, 102, 105, 108, 101, 32, 99, 111, 110,
                             116, 101, 110, 116],
               settles = 2\<rparr>\<rparr>"

definition png_attachment :: stored_attachment where
  "png_attachment =
     \<lparr>filename = ''image.png'', contentType = ''image/png'',
      afile = \<lparr>read = Inr [102, 105, 108, 101, 32, 50, 32, 99, 111, 110, 116, 101, 110, 116],
               settles = 1\<rparr>\<rparr>"

definition broken_attachment :: stored_attachment where
  "broken_attachment =
     \<lparr>filename = ''lost.bin'', contentType = ''application/octet-stream'',
      afile = \<lparr>read = Inl (Error ''Storage unavailable''), settles = 3\<rparr>\<rparr>"

definition notification_with_attachments :: notification where
  "notification_with_attachments =
     regular_notification\<lparr>attachments := Some [pdf_attachment, png_attachment]\<rparr>"

definition notification_with_broken_attachment :: notification where
  "notification_with_broken_attachment =
     regular_notification
       \<lparr>attachments := Some [pdf_attachment, broken_attachment, png_attachment]\<rparr>"

definition rendered_template :: template where
  "rendered_template = \<lparr>subject = ''Test Subject'', body = ''<p>Test Body</p>''\<rparr>"

definition expected_mail :: mail_data where
  "expected_mail =
     \<lparr>mail_to = ''user@example.com'',
      mail_from = EmailData ''noreply@example.com'' ''Example App'',
      mail_subject = ''Test Subject'',
      mail_html = ''<p>Test Body</p>'',
      mail_attachments = None\<rparr>"

definition expected_mail_with_attachments :: mail_data where
  "expected_mail_with_attachments =
     expected_mail
       \<lparr>mail_attachments :=
          Some [\<lparr>att_filename = ''test.pdf'', att_content = ''dGVzdCBmaWxlIGNvbnRlbnQ='',
                 att_type = ''application/pdf'', att_disposition = ''attachment''\<rparr>,
                \<lparr>att_filename = ''image.png'', att_content = ''ZmlsZSAyIGNvbnRlbnQ='',
                 att_type = ''image/png'', att_disposition = ''attachment''\<rparr>]\<rparr>"

definition expected_one_off_mail :: mail_data where
  "expected_one_off_mail = expected_mail\<lparr>mail_to := ''oneoff@example.com''\<rparr>"

definition adapter_with_empty_fromName :: adapter where
  "adapter_with_empty_fromName = test_adapter\<lparr>config := test_config\<lparr>fromName := Some []\<rparr>\<rparr>"

definition adapter_without_user_email :: adapter where
  "adapter_without_user_email = test_adapter\<lparr>backend := Some (mock_backend None)\<rparr>"

section \<open>Facts about \<open>Promise.all\<close>\<close>

lemma first_rejection_None_iff:
  "first_rejection ps = None \<longleftrightarrow> (\<forall>p \<in> set ps. \<exists>v. snd p = Inr v)"
proof (induction ps rule: first_rejection.induct)
  case 1
  show ?case by simp
next
  case (2 t v ps)
  then show ?case by simp
next
  case (3 t e ps)
  show ?case by (auto split: option.splits)
qed

lemma fulfilled_length:
  "first_rejection ps = None \<Longrightarrow> length (fulfilled ps) = length ps"
  by (induction ps rule: first_rejection.induct) (auto split: option.splits if_splits)

lemma fulfilled_nth:
  "first_rejection ps = None \<Longrightarrow> i < length ps \<Longrightarrow> snd (ps ! i) = Inr (fulfilled ps ! i)"
proof (induction ps arbitrary: i rule: first_rejection.induct)
  case 1
  then show ?case by simp
next
  case (2 t v ps)
  then show ?case by (cases i) auto
next
  case (3 t e ps)
  then show ?case by (auto split: option.splits if_splits)
qed

lemma first_rejection_Some:
  "first_rejection ps = Some (t, e) \<Longrightarrow>
     \<exists>i < length ps. ps ! i = (t, Inl e)
        \<and> (\<forall>j < length ps. \<forall>e'. snd (ps ! j) = Inl e' \<longrightarrow> t \<le> fst (ps ! j))"
proof (induction ps arbitrary: t e rule: first_rejection.induct)
  case 1
  then show ?case by simp
next
  case (2 t0 v ps)
  then have "first_rejection ps = Some (t, e)" by simp
  from 2(1)[OF this] obtain i where i: "i < length ps" "ps ! i = (t, Inl e)"
    "\<forall>j < length ps. \<forall>e'. snd (ps ! j) = Inl e' \<longrightarrow> t \<le> fst (ps ! j)" by blast
  have "Suc i < length ((t0, Inr v) # ps)" using i by simp
  moreover have "((t0, Inr v) # ps) ! Suc i = (t, Inl e)" using i by simp
  moreover have "\<forall>j < length ((t0, Inr v) # ps). \<forall>e'. snd (((t0, Inr v) # ps) ! j) = Inl e' \<longrightarrow> t \<le> fst (((t0, Inr v) # ps) ! j)"
  proof (intro allI impI)
    fix j e' assume "j < length ((t0, Inr v) # ps)" "snd (((t0, Inr v) # ps) ! j) = Inl e'"
    then show "t \<le> fst (((t0, Inr v) # ps) ! j)" using i(3) by (cases j) auto
  qed
  ultimately show ?case by blast
next
  case (3 t0 e0 ps)
  show ?case
  proof (cases "first_rejection ps")
    case None
    then have eq: "t = t0" "e = e0" using 3(2) by auto
    have all: "\<forall>p \<in> set ps. \<exists>v. snd p = Inr v" using None by (simp add: first_rejection_None_iff)
    have "\<forall>j < length ((t0, Inl e0) # ps). \<forall>e'. snd (((t0, Inl e0) # ps) ! j) = Inl e' \<longrightarrow> t \<le> fst (((t0, Inl e0) # ps) ! j)"
    proof (intro allI impI)
      fix j e' assume j: "j < length ((t0, Inl e0) # ps)" "snd (((t0, Inl e0) # ps) ! j) = Inl e'"
      show "t \<le> fst (((t0, Inl e0) # ps) ! j)"
      proof (cases j)
        case 0 then show ?thesis using eq by simp
      next
        case (Suc k)
        then have "ps ! k \<in> set ps" using j by simp
        then obtain v where "snd (ps ! k) = Inr v" using all by blast
        then show ?thesis using j Suc by simp
      qed
    qed
    then show ?thesis using eq by (intro exI[of _ 0]) simp
  next
    case (Some p)
    obtain t' e' where p: "p = (t', e')" by (cases p)
    from 3(1)[of t' e'] Some p obtain i where i: "i < length ps" "ps ! i = (t', Inl e')"
      "\<forall>j < length ps. \<forall>e''. snd (ps ! j) = Inl e'' \<longrightarrow> t' \<le> fst (ps ! j)" by blast
    show ?thesis
    proof (cases "t' < t0")
      case True
      then have eq: "t = t'" "e = e'" using 3(2) Some p by auto
      have "\<forall>j < length ((t0, Inl e0) # ps). \<forall>e''. snd (((t0, Inl e0) # ps) ! j) = Inl e'' \<longrightarrow> t \<le> fst (((t0, Inl e0) # ps) ! j)"
      proof (intro allI impI)
        fix j e'' assume j: "j < length ((t0, Inl e0) # ps)" "snd (((t0, Inl e0) # ps) ! j) = Inl e''"
        show "t \<le> fst (((t0, Inl e0) # ps) ! j)"
          using j i(3) True eq by (cases j) auto
      qed
      then show ?thesis using eq i by (intro exI[of _ "Suc i"]) simp
    next
      case False
      then have eq: "t = t0" "e = e0" using 3(2) Some p by auto
      have "\<forall>j < length ((t0, Inl e0) # ps). \<forall>e''. snd (((t0, Inl e0) # ps) ! j) = Inl e'' \<longrightarrow> t \<le> fst (((t0, Inl e0) # ps) ! j)"
      proof (intro allI impI)
        fix j e'' assume j: "j < length ((t0, Inl e0) # ps)" "snd (((t0, Inl e0) # ps) ! j) = Inl e''"
        show "t \<le> fst (((t0, Inl e0) # ps) ! j)"
        proof (cases j)
          case 0 then show ?thesis using eq by simp
        next
          case (Suc k)
          then have "t' \<le> fst (ps ! k)" using j i(3) by auto
          then show ?thesis using False eq Suc by simp
        qed
      qed
      then show ?thesis using eq by (intro exI[of _ 0]) simp
    qed
  qed
qed

lemma promise_all_Inr:
  "promise_all ps = Inr vs \<Longrightarrow> first_rejection ps = None \<and> vs = fulfilled ps"
  by (auto simp: promise_all_def split: option.splits)

lemma promise_all_Inl:
  "promise_all ps = Inl e \<Longrightarrow> \<exists>t. first_rejection ps = Some (t, e)"
  by (auto simp: promise_all_def split: option.splits)

section \<open>The paths through \<open>send\<close>\<close>

lemma getRecipientEmail_trace:
  "fst (getRecipientEmail b n) = (case emailOrPhone n of Some a \<Rightarrow> [] | None \<Rightarrow> [LookupCall (nid n)])"
  by (simp add: getRecipientEmail_def resolve_def reject_def call_def await_def
      split: option.splits sum.splits)

lemma getRecipientEmail_one_off:
  "emailOrPhone n = Some address \<Longrightarrow> getRecipientEmail b n = ([], Inr address)"
  by (simp add: getRecipientEmail_def resolve_def)

lemma getRecipientEmail_account:
  "emailOrPhone n = None \<Longrightarrow>
   getRecipientEmail b n =
     ([LookupCall (nid n)],
      (case getUserEmailFromNotification b (nid n) of
         Inl e \<Rightarrow> Inl e
       | Inr None \<Rightarrow> Inl (Error (''User email not found for notification '' @ id_text (nid n)))
       | Inr (Some address) \<Rightarrow> Inr address))"
  by (simp add: getRecipientEmail_def resolve_def reject_def call_def await_def
      split: option.splits sum.splits)

lemma send_render_fails:
  assumes "backend this = Some b" "templateRenderer this n c = Inl e"
  shows "send sgMail this n c = ([RenderCall n c], Inl e)"
  using assms by (simp add: send_def call_def await_def)

lemma send_id_falsy:
  assumes "backend this = Some b" "templateRenderer this n c = Inr t" "\<not> truthy (nid n)"
  shows "send sgMail this n c = ([RenderCall n c], Inl (Error ''Notification ID is required''))"
  using assms by (simp add: send_def call_def await_def reject_def)

lemma send_recipient_fails:
  assumes "backend this = Some b" "templateRenderer this n c = Inr t" "truthy (nid n)"
    "getRecipientEmail b n = (tr, Inl e)"
  shows "send sgMail this n c = (RenderCall n c # tr, Inl e)"
  using assms by (simp add: send_def call_def await_def)

lemma send_without_attachments:
  assumes "backend this = Some b" "templateRenderer this n c = Inr t" "truthy (nid n)"
    "getRecipientEmail b n = (tr, Inr address)"
    "attachments n = None \<or> attachments n = Some []"
    "md = \<lparr>mail_to = address,
           mail_from =
             (case fromName (config this) of
                None \<Rightarrow> Bare (fromEmail (config this))
              | Some nm \<Rightarrow>
                  if nm \<noteq> [] then EmailData (fromEmail (config this)) nm
                  else Bare (fromEmail (config this))),
           mail_subject = subject t,
           mail_html = body t,
           mail_attachments = None\<rparr>"
  shows "send sgMail this n c = (RenderCall n c # tr @ [MailSend md], sgMail md)"
  using assms by (auto simp add: send_def call_def await_def resolve_def Let_def)

lemma send_attachments_fail:
  assumes "backend this = Some b" "templateRenderer this n c = Inr t" "truthy (nid n)"
    "getRecipientEmail b n = (tr, Inr address)"
    "attachments n = Some atts" "atts \<noteq> []"
    "snd (prepareAttachments atts) = Inl e"
  shows "send sgMail this n c =
           (RenderCall n c # tr @ PrepareAttachmentsCall # map ReadCall [0..<length atts], Inl e)"
  using assms by (simp add: send_def call_def await_def resolve_def Let_def prepareAttachments_def)

lemma send_with_attachments:
  assumes "backend this = Some b" "templateRenderer this n c = Inr t" "truthy (nid n)"
    "getRecipientEmail b n = (tr, Inr address)"
    "attachments n = Some atts" "atts \<noteq> []"
    "snd (prepareAttachments atts) = Inr prepared"
    "md = \<lparr>mail_to = address,
           mail_from =
             (case fromName (config this) of
                None \<Rightarrow> Bare (fromEmail (config this))
              | Some nm \<Rightarrow>
                  if nm \<noteq> [] then EmailData (fromEmail (config this)) nm
                  else Bare (fromEmail (config this))),
           mail_subject = subject t,
           mail_html = body t,
           mail_attachments = Some prepared\<rparr>"
  shows "send sgMail this n c =
           (RenderCall n c # tr @ PrepareAttachmentsCall # map ReadCall [0..<length atts]
              @ [MailSend md], sgMail md)"
  using assms by (simp add: send_def call_def await_def resolve_def Let_def prepareAttachments_def)

lemma mail_calls_append: "mail_calls (xs @ ys) = mail_calls xs @ mail_calls ys"
  by (induction xs rule: mail_calls.induct) simp_all

lemma mail_calls_reads: "mail_calls (map ReadCall is) = []"
  by (induction "is") simp_all

lemma mail_calls_getRecipientEmail: "mail_calls (fst (getRecipientEmail b n)) = []"
  by (simp add: getRecipientEmail_trace split: option.splits)

lemma send_cases [case_names no_backend render_fails id_falsy recipient_fails
    without_attachments attachments_fail with_attachments]:
  obtains
    "backend this = None"
    "send sgMail this n c = ([], Inl (Error ''Backend not injected''))"
  | b e where "backend this = Some b" "templateRenderer this n c = Inl e"
    "send sgMail this n c = ([RenderCall n c], Inl e)"
  | b t where "backend this = Some b" "templateRenderer this n c = Inr t" "\<not> truthy (nid n)"
    "send sgMail this n c = ([RenderCall n c], Inl (Error ''Notification ID is required''))"
  | b t e where "backend this = Some b" "templateRenderer this n c = Inr t" "truthy (nid n)"
    "snd (getRecipientEmail b n) = Inl e"
    "send sgMail this n c = (RenderCall n c # fst (getRecipientEmail b n), Inl e)"
  | b t address md where "backend this = Some b" "templateRenderer this n c = Inr t"
    "truthy (nid n)" "snd (getRecipientEmail b n) = Inr address"
    "attachments n = None \<or> attachments n = Some []"
    "md = \<lparr>mail_to = address,
           mail_from =
             (case fromName (config this) of
                None \<Rightarrow> Bare (fromEmail (config this))
              | Some nm \<Rightarrow>
                  if nm \<noteq> [] then EmailData (fromEmail (config this)) nm
                  else Bare (fromEmail (config this))),
           mail_subject = subject t,
           mail_html = body t,
           mail_attachments = None\<rparr>"
    "send sgMail this n c =
       (RenderCall n c # fst (getRecipientEmail b n) @ [MailSend md], sgMail md)"
  | b t address atts e where "backend this = Some b" "templateRenderer this n c = Inr t"
    "truthy (nid n)" "snd (getRecipientEmail b n) = Inr address"
    "attachments n = Some atts" "atts \<noteq> []"
    "snd (prepareAttachments atts) = Inl e"
    "send sgMail this n c =
       (RenderCall n c # fst (getRecipientEmail b n)
          @ PrepareAttachmentsCall # map ReadCall [0..<length atts], Inl e)"
  | b t address atts prepared md where "backend this = Some b"
    "templateRenderer this n c = Inr t"
    "truthy (nid n)" "snd (getRecipientEmail b n) = Inr address"
    "attachments n = Some atts" "atts \<noteq> []"
    "snd (prepareAttachments atts) = Inr prepared"
    "md = \<lparr>mail_to = address,
           mail_from =
             (case fromName (config this) of
                None \<Rightarrow> Bare (fromEmail (config this))
              | Some nm \<Rightarrow>
                  if nm \<noteq> [] then EmailData (fromEmail (config this)) nm
                  else Bare (fromEmail (config this))),
           mail_subject = subject t,
           mail_html = body t,
           mail_attachments = Some prepared\<rparr>"
    "send sgMail this n c =
       (RenderCall n c # fst (getRecipientEmail b n)
          @ PrepareAttachmentsCall # map ReadCall [0..<length atts] @ [MailSend md],
        sgMail md)"
proof (cases "backend this")
  case None
  then show ?thesis using that(1) by (simp add: send_def reject_def)
next
  case (Some b)
  note b = this
  show ?thesis
  proof (cases "templateRenderer this n c")
    case (Inl e)
    then show ?thesis using that(2) b send_render_fails by blast
  next
    case (Inr t)
    note t = this
    show ?thesis
    proof (cases "truthy (nid n)")
      case False
      then show ?thesis using that(3) b t send_id_falsy by blast
    next
      case True
      note i = this
      obtain tr r where g: "getRecipientEmail b n = (tr, r)" by (cases "getRecipientEmail b n")
      show ?thesis
      proof (cases r)
        case (Inl e)
        then show ?thesis using that(4)[OF b t i] g send_recipient_fails[OF b t i] by simp
      next
        case (Inr address)
        then have g': "getRecipientEmail b n = (tr, Inr address)" using g by simp
        show ?thesis
        proof (cases "attachments n = None \<or> attachments n = Some []")
          case True
          then show ?thesis
            using that(5)[OF b t i _ True refl] g' send_without_attachments[OF b t i g' True refl]
            by simp
        next
          case False
          then obtain atts where atts: "attachments n = Some atts" "atts \<noteq> []" by auto
          show ?thesis
          proof (cases "snd (prepareAttachments atts)")
            case (Inl e)
            then show ?thesis
              using that(6)[OF b t i _ atts Inl] g' send_attachments_fail[OF b t i g' atts Inl]
              by simp
          next
            case (Inr prepared)
            then show ?thesis
              using that(7)[OF b t i _ atts Inr refl] g'
                send_with_attachments[OF b t i g' atts Inr refl]
              by simp
          qed
        qed
      qed
    qed
  qed
qed

section \<open>What \<open>prepareAttachments\<close> and the recipient lookup contribute\<close>

lemma MailSend_in_recipient_trace: "MailSend md \<notin> set (fst (getRecipientEmail b n))"
  by (simp add: getRecipientEmail_trace split: option.splits)

lemma Prepare_in_recipient_trace:
  "PrepareAttachmentsCall \<notin> set (fst (getRecipientEmail b n))"
  by (simp add: getRecipientEmail_trace split: option.splits)

lemma ReadCall_in_recipient_trace: "ReadCall i \<notin> set (fst (getRecipientEmail b n))"
  by (simp add: getRecipientEmail_trace split: option.splits)

lemma MailSend_in_reads: "MailSend md \<notin> set (map ReadCall is)"
  by auto

lemma prepareAttachments_Inr:
  assumes "snd (prepareAttachments atts) = Inr prepared"
  shows "length prepared = length atts"
    and "i < length atts \<Longrightarrow>
         \<exists>bytes. read (afile (atts ! i)) = Inr bytes
           \<and> prepared ! i =
               \<lparr>att_filename = filename (atts ! i), att_content = base64 bytes,
                att_type = contentType (atts ! i), att_disposition = ''attachment''\<rparr>"
proof -
  let ?ps = "map (\<lambda>att. (settles (afile att), prepare_one att)) atts"
  from assms have pa: "promise_all ?ps = Inr prepared" by (simp add: prepareAttachments_def)
  then have none: "first_rejection ?ps = None" and eq: "prepared = fulfilled ?ps"
    using promise_all_Inr by blast+
  show "length prepared = length atts" using fulfilled_length[OF none] eq by simp
  assume i: "i < length atts"
  then have "snd (?ps ! i) = Inr (prepared ! i)" using fulfilled_nth[OF none, of i] eq by simp
  then have "prepare_one (atts ! i) = Inr (prepared ! i)" using i by simp
  then show "\<exists>bytes. read (afile (atts ! i)) = Inr bytes
           \<and> prepared ! i =
               \<lparr>att_filename = filename (atts ! i), att_content = base64 bytes,
                att_type = contentType (atts ! i), att_disposition = ''attachment''\<rparr>"
    by (auto simp: prepare_one_def split: sum.splits)
qed

lemma prepareAttachments_all_read:
  assumes "\<forall>att \<in> set atts. \<exists>bytes. read (afile att) = Inr bytes"
  shows "\<exists>prepared. snd (prepareAttachments atts) = Inr prepared"
proof -
  let ?ps = "map (\<lambda>att. (settles (afile att), prepare_one att)) atts"
  have "\<forall>p \<in> set ?ps. \<exists>v. snd p = Inr v"
    using assms by (auto simp: prepare_one_def)
  then have "first_rejection ?ps = None" by (simp only: first_rejection_None_iff)
  then show ?thesis by (simp add: prepareAttachments_def promise_all_def)
qed

lemma prepareAttachments_Inl:
  assumes "snd (prepareAttachments atts) = Inl e"
  shows "\<exists>j < length atts. read (afile (atts ! j)) = Inl e
           \<and> (\<forall>k < length atts. \<forall>e'. read (afile (atts ! k)) = Inl e'
                 \<longrightarrow> settles (afile (atts ! j)) \<le> settles (afile (atts ! k)))"
proof -
  let ?ps = "map (\<lambda>att. (settles (afile att), prepare_one att)) atts"
  from assms have "promise_all ?ps = Inl e" by (simp add: prepareAttachments_def)
  then obtain t where "first_rejection ?ps = Some (t, e)" using promise_all_Inl by blast
  from first_rejection_Some[OF this] obtain j where j: "j < length ?ps" "?ps ! j = (t, Inl e)"
    "\<forall>k < length ?ps. \<forall>e'. snd (?ps ! k) = Inl e' \<longrightarrow> t \<le> fst (?ps ! k)" by blast
  have jt: "settles (afile (atts ! j)) = t" and je: "prepare_one (atts ! j) = Inl e"
    using j(1,2) by simp_all
  have "read (afile (atts ! j)) = Inl e"
    using je by (auto simp: prepare_one_def split: sum.splits)
  moreover have "\<forall>k < length atts. \<forall>e'. read (afile (atts ! k)) = Inl e'
                 \<longrightarrow> settles (afile (atts ! j)) \<le> settles (afile (atts ! k))"
  proof (intro allI impI)
    fix k e' assume k: "k < length atts" "read (afile (atts ! k)) = Inl e'"
    then have "snd (?ps ! k) = Inl e'" by (simp add: prepare_one_def)
    then have "t \<le> fst (?ps ! k)" using j(3) k(1) by simp
    then show "settles (afile (atts ! j)) \<le> settles (afile (atts ! k))" using jt k(1) by simp
  qed
  ultimately show ?thesis using j(1) by auto
qed

lemma prepareAttachments_read_fails:
  assumes "i < length atts" "read (afile (atts ! i)) = Inl e"
  shows "\<exists>e'. snd (prepareAttachments atts) = Inl e'"
proof (cases "snd (prepareAttachments atts)")
  case (Inl e')
  then show ?thesis by blast
next
  case (Inr prepared)
  from prepareAttachments_Inr(2)[OF Inr assms(1)] assms(2) show ?thesis by simp
qed

text \<open>Unfolding the model on the fixtures.\<close>

lemmas run_defs =
  send_def await_def call_def resolve_def reject_def truthy_def getRecipientEmail_def
  prepareAttachments_def promise_all_def prepare_one_def id_text_def
  base64_char_def base64_alphabet_def
  test_config_def ok_renderer_def failing_renderer_def mock_backend_def mock_send_def
  regular_notification_def one_off_notification_def test_adapter_def
  pdf_attachment_def png_attachment_def broken_attachment_def
  notification_with_attachments_def notification_with_broken_attachment_def
  rendered_template_def expected_mail_def expected_mail_with_attachments_def
  expected_one_off_mail_def adapter_with_empty_fromName_def adapter_without_user_email_def

section \<open>Claims\<close>

text \<open>
  C1 (as amended): for every notification whose id is present and not the empty string,
  on an adapter with an injected backend, with a template render that succeeds with
  \<open>t\<close>, a recipient address that resolves to \<open>address\<close>, and attachments (if any)
  whose reads all succeed, \<open>send\<close> performs exactly one outbound mail call and settles
  with that call's outcome. Its payload has \<open>to\<close> equal to the resolved address,
  \<open>subject\<close> and \<open>html\<close> equal to the rendered subject and body, and \<open>from\<close> equal
  to the pair of \<open>fromEmail\<close> and \<open>fromName\<close> when a non-empty \<open>fromName\<close> is
  configured, and to the bare \<open>fromEmail\<close> string when \<open>fromName\<close> is absent or
  empty.
\<close>

theorem send_one_mail_call:
  assumes "backend this = Some b"
    and "templateRenderer this n c = Inr t"
    and "nid n = Some i" and "i \<noteq> []"
    and "snd (getRecipientEmail b n) = Inr address"
    and "\<forall>atts. attachments n = Some atts \<longrightarrow>
           (\<forall>att \<in> set atts. \<exists>bytes. read (afile att) = Inr bytes)"
  shows "\<exists>md. mail_calls (fst (send sgMail this n c)) = [md]
           \<and> snd (send sgMail this n c) = sgMail md
           \<and> mail_to md = address
           \<and> mail_subject md = subject t
           \<and> mail_html md = body t
           \<and> (\<forall>nm. fromName (config this) = Some nm \<and> nm \<noteq> [] \<longrightarrow>
                  mail_from md = EmailData (fromEmail (config this)) nm)
           \<and> (fromName (config this) = None \<or> fromName (config this) = Some [] \<longrightarrow>
                  mail_from md = Bare (fromEmail (config this)))"
proof (cases rule: send_cases [of this sgMail n c])
  case no_backend
  then show ?thesis using assms(1) by simp
next
  case (render_fails b' e)
  then show ?thesis using assms(2) by simp
next
  case (id_falsy b' t')
  then show ?thesis using assms(3,4) by (simp add: truthy_def)
next
  case (recipient_fails b' t' e)
  then show ?thesis using assms(1,5) by simp
next
  case (without_attachments b' t' address' md)
  then have "b' = b" "t' = t" "address' = address" using assms by simp_all
  then show ?thesis
    using without_attachments
    by (auto simp: mail_calls_append mail_calls_getRecipientEmail)
next
  case (attachments_fail b' t' address' atts e)
  from assms(6) attachments_fail(5)
  have "\<forall>att \<in> set atts. \<exists>bytes. read (afile att) = Inr bytes" by simp
  from prepareAttachments_all_read[OF this] attachments_fail(7) show ?thesis by simp
next
  case (with_attachments b' t' address' atts prepared md)
  then have "b' = b" "t' = t" "address' = address" using assms by simp_all
  then show ?thesis
    using with_attachments
    by (auto simp: mail_calls_append mail_calls_getRecipientEmail mail_calls_reads)
qed

theorem send_one_mail_call_witness:
  "backend test_adapter = Some (mock_backend (Some ''user@example.com''))
   \<and> templateRenderer test_adapter notification_with_attachments [] = Inr rendered_template
   \<and> nid notification_with_attachments = Some ''456''
   \<and> snd (getRecipientEmail (mock_backend (Some ''user@example.com''))
             notification_with_attachments) = Inr ''user@example.com''
   \<and> attachments notification_with_attachments = Some [pdf_attachment, png_attachment]
   \<and> (\<exists>bytes. read (afile pdf_attachment) = Inr bytes)
   \<and> (\<exists>bytes. read (afile png_attachment) = Inr bytes)
   \<and> (\<exists>md. mail_calls (fst (send mock_send test_adapter notification_with_attachments [])) = [md]
          \<and> mail_to md = ''user@example.com''
          \<and> mail_subject md = subject rendered_template
          \<and> mail_html md = body rendered_template
          \<and> mail_from md = EmailData ''noreply@example.com'' ''Example App'')"
proof -
  have h1: "backend test_adapter = Some (mock_backend (Some ''user@example.com''))"
    by (simp add: test_adapter_def)
  have h2: "templateRenderer test_adapter notification_with_attachments [] = Inr rendered_template"
    by (simp add: test_adapter_def ok_renderer_def rendered_template_def)
  have h3: "nid notification_with_attachments = Some ''456''"
    by (simp add: notification_with_attachments_def regular_notification_def)
  have h4: "''456'' \<noteq> []" by simp
  have h5: "snd (getRecipientEmail (mock_backend (Some ''user@example.com''))
             notification_with_attachments) = Inr ''user@example.com''"
    by (simp add: run_defs)
  have h6: "\<forall>atts. attachments notification_with_attachments = Some atts \<longrightarrow>
          (\<forall>att \<in> set atts. \<exists>bytes. read (afile att) = Inr bytes)"
    by (simp add: notification_with_attachments_def pdf_attachment_def png_attachment_def)
  have f: "fromName (config test_adapter) = Some ''Example App''"
    "fromEmail (config test_adapter) = ''noreply@example.com''"
    by (simp_all add: test_adapter_def test_config_def)
  from send_one_mail_call [where sgMail = mock_send and c = "[]", OF h1 h2 h3 h4 h5 h6]
  obtain md where "mail_calls (fst (send mock_send test_adapter notification_with_attachments [])) = [md]"
    "mail_to md = ''user@example.com''" "mail_subject md = subject rendered_template"
    "mail_html md = body rendered_template"
    "mail_from md = EmailData ''noreply@example.com'' ''Example App''"
    using f by auto
  moreover have "attachments notification_with_attachments
                   = Some [pdf_attachment, png_attachment]"
    by (simp add: notification_with_attachments_def)
  moreover have "\<exists>bytes. read (afile pdf_attachment) = Inr bytes"
    by (simp add: pdf_attachment_def)
  moreover have "\<exists>bytes. read (afile png_attachment) = Inr bytes"
    by (simp add: png_attachment_def)
  ultimately show ?thesis using h1 h2 h3 h5 by blast
qed

text \<open>
  C1 as first stated asks only for a present id, a backend, a successful render and a
  resolved recipient. Three runs of the test fixtures show that this is not enough: with
  an attachment whose read rejects, no mail call is made at all; with the id \<^verbatim>\<open>""\<close>,
  which is present but falsy, \<open>send\<close> stops at the id check and makes no mail call;
  with \<open>fromName\<close> configured as \<^verbatim>\<open>""\<close>, the one mail call carries the bare
  \<open>fromEmail\<close> string.
\<close>

theorem send_one_mail_call_counterexample:
  "backend test_adapter = Some (mock_backend (Some ''user@example.com''))
   \<and> templateRenderer test_adapter notification_with_broken_attachment [] = Inr rendered_template
   \<and> nid notification_with_broken_attachment = Some ''456''
   \<and> snd (getRecipientEmail (mock_backend (Some ''user@example.com''))
             notification_with_broken_attachment) = Inr ''user@example.com''
   \<and> mail_calls (fst (send mock_send test_adapter notification_with_broken_attachment [])) = []
   \<and> nid (one_off_notification\<lparr>nid := Some []\<rparr>) = Some []
   \<and> templateRenderer test_adapter (one_off_notification\<lparr>nid := Some []\<rparr>) []
        = Inr rendered_template
   \<and> snd (getRecipientEmail (mock_backend (Some ''user@example.com''))
             (one_off_notification\<lparr>nid := Some []\<rparr>)) = Inr ''oneoff@example.com''
   \<and> mail_calls (fst (send mock_send test_adapter (one_off_notification\<lparr>nid := Some []\<rparr>) []))
        = []
   \<and> fromName (config adapter_with_empty_fromName) = Some []
   \<and> mail_calls (fst (send mock_send adapter_with_empty_fromName regular_notification []))
        = [expected_mail\<lparr>mail_from := Bare ''noreply@example.com''\<rparr>]"
  by (simp add: run_defs)

text \<open>
  C2 (as amended): \<open>send\<close> checks that a backend is injected first, then renders the
  template, and only then checks \<open>notification.id\<close>. Hence for every notification
  whose id is absent: without a backend nothing is called and the error is
  \<^verbatim>\<open>Backend not injected\<close>; with a backend the template renderer is invoked exactly
  once and nothing else is called, and \<open>send\<close> fails with
  \<^verbatim>\<open>Notification ID is required\<close> when the render succeeds and with the renderer's
  own error when it fails.
\<close>

theorem send_check_order:
  assumes "nid n = None"
  shows "send sgMail this n c =
           (case backend this of
              None \<Rightarrow> ([], Inl (Error ''Backend not injected''))
            | Some b \<Rightarrow>
                ([RenderCall n c],
                 (case templateRenderer this n c of
                    Inl e \<Rightarrow> Inl e
                  | Inr t \<Rightarrow> Inl (Error ''Notification ID is required''))))"
  using assms
  by (simp add: send_def await_def call_def reject_def truthy_def
      split: option.splits sum.splits)

theorem send_check_order_witness:
  "nid (regular_notification\<lparr>nid := None\<rparr>) = None
   \<and> send mock_send test_adapter (regular_notification\<lparr>nid := None\<rparr>) []
       = ([RenderCall (regular_notification\<lparr>nid := None\<rparr>) []],
          Inl (Error ''Notification ID is required''))
   \<and> send mock_send (test_adapter\<lparr>templateRenderer := failing_renderer\<rparr>)
         (regular_notification\<lparr>nid := None\<rparr>) []
       = ([RenderCall (regular_notification\<lparr>nid := None\<rparr>) []],
          Inl (Error ''Template not found''))"
  using send_check_order [of "regular_notification\<lparr>nid := None\<rparr>" mock_send test_adapter "[]"]
        send_check_order [of "regular_notification\<lparr>nid := None\<rparr>" mock_send
                           "test_adapter\<lparr>templateRenderer := failing_renderer\<rparr>" "[]"]
  by (simp add: regular_notification_def test_adapter_def ok_renderer_def failing_renderer_def)

text \<open>
  C2 as first stated says that the renderer is never invoked when the id is absent. On
  the regular notification of the test suite with its id removed, and a backend
  injected, the renderer is called before \<open>send\<close> fails on the id check.
\<close>

theorem send_check_order_counterexample:
  "nid (regular_notification\<lparr>nid := None\<rparr>) = None
   \<and> backend test_adapter \<noteq> None
   \<and> RenderCall (regular_notification\<lparr>nid := None\<rparr>) []
        \<in> set (fst (send mock_send test_adapter (regular_notification\<lparr>nid := None\<rparr>) []))
   \<and> snd (send mock_send test_adapter (regular_notification\<lparr>nid := None\<rparr>) [])
        = Inl (Error ''Notification ID is required'')"
  by (simp add: run_defs)

text \<open>
  C3: for every notification with a non-empty list \<open>atts\<close> of attachments, every
  outbound request that \<open>send\<close> makes carries an attachments array of exactly
  \<open>length atts\<close> elements, and element \<open>i\<close> has \<open>content\<close> equal to the base64
  encoding of the bytes returned by the read of attachment \<open>i\<close>, \<open>filename\<close> and
  \<open>type\<close> copied from the attachment's \<open>filename\<close> and \<open>contentType\<close>, and
  \<open>disposition\<close> equal to \<^verbatim>\<open>attachment\<close>: the output order is the input order,
  whatever the order in which the reads settle.
\<close>

theorem send_attachment_payload:
  assumes "attachments n = Some atts" and "atts \<noteq> []"
    and "MailSend md \<in> set (fst (send sgMail this n c))"
  shows "\<exists>out. mail_attachments md = Some out
           \<and> length out = length atts
           \<and> (\<forall>i < length atts. \<exists>bytes.
                 read (afile (atts ! i)) = Inr bytes
                 \<and> out ! i =
                     \<lparr>att_filename = filename (atts ! i),
                      att_content = base64 bytes,
                      att_type = contentType (atts ! i),
                      att_disposition = ''attachment''\<rparr>)"
proof (cases rule: send_cases [of this sgMail n c])
  case no_backend
  then show ?thesis using assms(3) by simp
next
  case (render_fails b e)
  then show ?thesis using assms(3) by simp
next
  case (id_falsy b t)
  then show ?thesis using assms(3) by simp
next
  case (recipient_fails b t e)
  then show ?thesis using assms(3) by (simp add: MailSend_in_recipient_trace)
next
  case (without_attachments b t address md')
  then show ?thesis using assms(1,2) by auto
next
  case (attachments_fail b t address atts' e)
  then show ?thesis using assms(3) by (auto simp: MailSend_in_recipient_trace)
next
  case (with_attachments b t address atts' prepared md')
  then have a: "atts' = atts" using assms(1) by simp
  have "md = md'"
    using assms(3) with_attachments(9) by (auto simp: MailSend_in_recipient_trace)
  then have m: "mail_attachments md = Some prepared" using with_attachments(8) by simp
  from with_attachments(7) a have p: "snd (prepareAttachments atts) = Inr prepared" by simp
  show ?thesis
    using m prepareAttachments_Inr(1)[OF p] prepareAttachments_Inr(2)[OF p] by blast
qed

theorem send_attachment_payload_witness:
  "attachments notification_with_attachments = Some [pdf_attachment, png_attachment]
   \<and> [pdf_attachment, png_attachment] \<noteq> []
   \<and> MailSend expected_mail_with_attachments
        \<in> set (fst (send mock_send test_adapter notification_with_attachments []))
   \<and> (\<exists>out. mail_attachments expected_mail_with_attachments = Some out
          \<and> length out = length [pdf_attachment, png_attachment]
          \<and> (\<forall>i < length [pdf_attachment, png_attachment]. \<exists>bytes.
                read (afile ([pdf_attachment, png_attachment] ! i)) = Inr bytes
                \<and> out ! i =
                    \<lparr>att_filename = filename ([pdf_attachment, png_attachment] ! i),
                     att_content = base64 bytes,
                     att_type = contentType ([pdf_attachment, png_attachment] ! i),
                     att_disposition = ''attachment''\<rparr>))"
proof -
  have h1: "attachments notification_with_attachments = Some [pdf_attachment, png_attachment]"
    by (simp add: notification_with_attachments_def)
  have h2: "[pdf_attachment, png_attachment] \<noteq> []" by simp
  have h3: "MailSend expected_mail_with_attachments
        \<in> set (fst (send mock_send test_adapter notification_with_attachments []))"
    by (simp add: run_defs)
  show ?thesis using h1 h2 h3 send_attachment_payload [OF h1 h2 h3] by blast
qed

text \<open>
  C4: for every notification whose attachments are absent or empty, the attachment
  translator is not invoked (no call of \<open>prepareAttachments\<close>, no read), and every
  outbound request that \<open>send\<close> makes has no attachments field (\<open>None\<close>, not
  \<open>Some []\<close>).
\<close>

theorem send_no_attachments_field:
  assumes "attachments n = None \<or> attachments n = Some []"
  shows "PrepareAttachmentsCall \<notin> set (fst (send sgMail this n c))
         \<and> (\<forall>i. ReadCall i \<notin> set (fst (send sgMail this n c)))
         \<and> (\<forall>md. MailSend md \<in> set (fst (send sgMail this n c)) \<longrightarrow>
                mail_attachments md = None)"
proof (cases rule: send_cases [of this sgMail n c])
  case no_backend
  then show ?thesis by simp
next
  case (render_fails b e)
  then show ?thesis by simp
next
  case (id_falsy b t)
  then show ?thesis by simp
next
  case (recipient_fails b t e)
  then show ?thesis
    by (simp add: MailSend_in_recipient_trace Prepare_in_recipient_trace
        ReadCall_in_recipient_trace)
next
  case (without_attachments b t address md')
  then show ?thesis
    by (auto simp: MailSend_in_recipient_trace Prepare_in_recipient_trace
        ReadCall_in_recipient_trace)
next
  case (attachments_fail b t address atts e)
  then show ?thesis using assms by auto
next
  case (with_attachments b t address atts prepared md')
  then show ?thesis using assms by auto
qed

theorem send_no_attachments_field_witness:
  "(attachments regular_notification = None \<or> attachments regular_notification = Some [])
   \<and> MailSend expected_mail \<in> set (fst (send mock_send test_adapter regular_notification []))
   \<and> mail_attachments expected_mail = None
   \<and> PrepareAttachmentsCall \<notin> set (fst (send mock_send test_adapter regular_notification []))
   \<and> (attachments (regular_notification\<lparr>attachments := Some []\<rparr>) = None
        \<or> attachments (regular_notification\<lparr>attachments := Some []\<rparr>) = Some [])
   \<and> MailSend expected_mail
        \<in> set (fst (send mock_send test_adapter
                       (regular_notification\<lparr>attachments := Some []\<rparr>) []))
   \<and> PrepareAttachmentsCall
        \<notin> set (fst (send mock_send test_adapter
                       (regular_notification\<lparr>attachments := Some []\<rparr>) []))"
proof -
  have h1: "attachments regular_notification = None \<or> attachments regular_notification = Some []"
    by (simp add: regular_notification_def)
  have h2: "attachments (regular_notification\<lparr>attachments := Some []\<rparr>) = None
        \<or> attachments (regular_notification\<lparr>attachments := Some []\<rparr>) = Some []"
    by simp
  have m1: "MailSend expected_mail
              \<in> set (fst (send mock_send test_adapter regular_notification []))"
    by (simp add: run_defs expected_mail_def)
  have m2: "MailSend expected_mail
        \<in> set (fst (send mock_send test_adapter
                       (regular_notification\<lparr>attachments := Some []\<rparr>) []))"
    by (simp add: run_defs expected_mail_def)
  show ?thesis
    using h1 h2 m1 m2
      send_no_attachments_field [OF h1, of mock_send test_adapter "[]"]
      send_no_attachments_field [OF h2, of mock_send test_adapter "[]"]
    by blast
qed

text \<open>
  C5: for every one-off notification (one carrying \<open>emailOrPhone\<close>), \<open>send\<close>
  never invokes the backend's recipient lookup, and the \<open>to\<close> field of every outbound
  request it makes is the notification's own \<open>emailOrPhone\<close> value.
\<close>

theorem send_one_off_recipient:
  assumes "emailOrPhone n = Some address"
  shows "(\<forall>i. LookupCall i \<notin> set (fst (send sgMail this n c)))
         \<and> (\<forall>md. MailSend md \<in> set (fst (send sgMail this n c)) \<longrightarrow> mail_to md = address)"
proof -
  have g: "getRecipientEmail b n = ([], Inr address)" for b
    using assms by (rule getRecipientEmail_one_off)
  show ?thesis
  proof (cases rule: send_cases [of this sgMail n c])
    case no_backend
    then show ?thesis by simp
  next
    case (render_fails b e)
    then show ?thesis by simp
  next
    case (id_falsy b t)
    then show ?thesis by simp
  next
    case (recipient_fails b t e)
    then show ?thesis using g[of b] by simp
  next
    case (without_attachments b t address' md')
    then show ?thesis using g[of b] by auto
  next
    case (attachments_fail b t address' atts e)
    then show ?thesis using g[of b] by auto
  next
    case (with_attachments b t address' atts prepared md')
    then show ?thesis using g[of b] by auto
  qed
qed

theorem send_one_off_recipient_witness:
  "emailOrPhone one_off_notification = Some ''oneoff@example.com''
   \<and> MailSend expected_one_off_mail
        \<in> set (fst (send mock_send test_adapter one_off_notification []))
   \<and> mail_to expected_one_off_mail = ''oneoff@example.com''
   \<and> (\<forall>i. LookupCall i \<notin> set (fst (send mock_send test_adapter one_off_notification [])))"
proof -
  have h: "emailOrPhone one_off_notification = Some ''oneoff@example.com''"
    by (simp add: one_off_notification_def)
  have m: "MailSend expected_one_off_mail
        \<in> set (fst (send mock_send test_adapter one_off_notification []))"
    by (simp add: run_defs expected_mail_def expected_one_off_mail_def)
  show ?thesis
    using h m send_one_off_recipient [OF h, of mock_send test_adapter "[]"] by blast
qed

text \<open>
  C6 (as amended): for every notification with an absent id, on an adapter with an
  injected backend, \<open>send\<close> fails and makes no outbound mail call. The error is
  \<^verbatim>\<open>Notification ID is required\<close> whenever the template render succeeds; when the
  render fails, the renderer's own error is the one that propagates, because the
  template is rendered before the id is checked.
\<close>

theorem send_absent_id_no_mail:
  assumes "backend this = Some b" and "nid n = None"
  shows "mail_calls (fst (send sgMail this n c)) = []
         \<and> (\<exists>e. snd (send sgMail this n c) = Inl e)
         \<and> (\<forall>t. templateRenderer this n c = Inr t \<longrightarrow>
                snd (send sgMail this n c) = Inl (Error ''Notification ID is required''))
         \<and> (\<forall>e. templateRenderer this n c = Inl e \<longrightarrow> snd (send sgMail this n c) = Inl e)"
proof (cases "templateRenderer this n c")
  case (Inl e)
  then show ?thesis using send_render_fails[OF assms(1) Inl] by simp
next
  case (Inr t)
  have "\<not> truthy (nid n)" using assms(2) by (simp add: truthy_def)
  then show ?thesis using send_id_falsy[OF assms(1) Inr] Inr by simp
qed

theorem send_absent_id_no_mail_witness:
  "backend test_adapter = Some (mock_backend (Some ''user@example.com''))
   \<and> nid (one_off_notification\<lparr>nid := None\<rparr>) = None
   \<and> templateRenderer test_adapter (one_off_notification\<lparr>nid := None\<rparr>) []
        = Inr rendered_template
   \<and> mail_calls (fst (send mock_send test_adapter (one_off_notification\<lparr>nid := None\<rparr>) []))
        = []
   \<and> snd (send mock_send test_adapter (one_off_notification\<lparr>nid := None\<rparr>) [])
        = Inl (Error ''Notification ID is required'')"
proof -
  have h1: "backend test_adapter = Some (mock_backend (Some ''user@example.com''))"
    by (simp add: test_adapter_def)
  have h2: "nid (one_off_notification\<lparr>nid := None\<rparr>) = None" by simp
  have r: "templateRenderer test_adapter (one_off_notification\<lparr>nid := None\<rparr>) []
        = Inr rendered_template"
    by (simp add: test_adapter_def ok_renderer_def rendered_template_def)
  show ?thesis
    using h1 h2 r send_absent_id_no_mail [OF h1 h2, of mock_send "[]"] by blast
qed

text \<open>
  C6 as first stated promises the id-required error for every notification with an
  absent id. With a renderer that rejects with \<^verbatim>\<open>Template not found\<close>, \<open>send\<close> on a
  notification without id fails with that error instead.
\<close>

theorem send_absent_id_no_mail_counterexample:
  "backend (test_adapter\<lparr>templateRenderer := failing_renderer\<rparr>) \<noteq> None
   \<and> nid (one_off_notification\<lparr>nid := None\<rparr>) = None
   \<and> snd (send mock_send (test_adapter\<lparr>templateRenderer := failing_renderer\<rparr>)
             (one_off_notification\<lparr>nid := None\<rparr>) [])
        = Inl (Error ''Template not found'')
   \<and> snd (send mock_send (test_adapter\<lparr>templateRenderer := failing_renderer\<rparr>)
             (one_off_notification\<lparr>nid := None\<rparr>) [])
        \<noteq> Inl (Error ''Notification ID is required'')"
  by (simp add: run_defs)

text \<open>
  C7: for every account-bound notification (no \<open>emailOrPhone\<close>) for which \<open>send\<close>
  performs the backend recipient lookup and the lookup returns no value, \<open>send\<close>
  fails with an error whose message ends with that notification's id, and no outbound
  mail call is made.
\<close>

theorem send_address_not_found:
  assumes "emailOrPhone n = None"
    and "backend this = Some b"
    and "getUserEmailFromNotification b (nid n) = Inr None"
    and "LookupCall (nid n) \<in> set (fst (send sgMail this n c))"
  shows "\<exists>i. nid n = Some i
           \<and> snd (send sgMail this n c)
               = Inl (Error (''User email not found for notification '' @ i))
           \<and> mail_calls (fst (send sgMail this n c)) = []"
proof -
  have g: "getRecipientEmail b n =
             ([LookupCall (nid n)],
              Inl (Error (''User email not found for notification '' @ id_text (nid n))))"
    using assms(1,3) by (simp add: getRecipientEmail_account)
  show ?thesis
  proof (cases rule: send_cases [of this sgMail n c])
    case no_backend
    then show ?thesis using assms(2) by simp
  next
    case (render_fails b' e)
    then show ?thesis using assms(4) by simp
  next
    case (id_falsy b' t)
    then show ?thesis using assms(4) by simp
  next
    case (recipient_fails b' t e)
    then have "b' = b" using assms(2) by simp
    moreover obtain i where "nid n = Some i" using recipient_fails(3)
      by (auto simp: truthy_def split: option.splits)
    ultimately show ?thesis using recipient_fails g by (simp add: id_text_def)
  next
    case (without_attachments b' t address md')
    then show ?thesis using g assms(2) by simp
  next
    case (attachments_fail b' t address atts e)
    then show ?thesis using g assms(2) by simp
  next
    case (with_attachments b' t address atts prepared md')
    then show ?thesis using g assms(2) by simp
  qed
qed

theorem send_address_not_found_witness:
  "emailOrPhone regular_notification = None
   \<and> backend adapter_without_user_email = Some (mock_backend None)
   \<and> getUserEmailFromNotification (mock_backend None) (nid regular_notification) = Inr None
   \<and> LookupCall (nid regular_notification)
        \<in> set (fst (send mock_send adapter_without_user_email regular_notification []))
   \<and> nid regular_notification = Some ''456''
   \<and> snd (send mock_send adapter_without_user_email regular_notification [])
        = Inl (Error ''User email not found for notification 456'')
   \<and> mail_calls (fst (send mock_send adapter_without_user_email regular_notification [])) = []"
proof -
  have h1: "emailOrPhone regular_notification = None"
    by (simp add: regular_notification_def)
  have h2: "backend adapter_without_user_email = Some (mock_backend None)"
    by (simp add: adapter_without_user_email_def)
  have h3: "getUserEmailFromNotification (mock_backend None) (nid regular_notification)
              = Inr None"
    by (simp add: mock_backend_def)
  have h4: "LookupCall (nid regular_notification)
        \<in> set (fst (send mock_send adapter_without_user_email regular_notification []))"
    by (simp add: run_defs adapter_without_user_email_def)
  have i: "nid regular_notification = Some ''456''"
    by (simp add: regular_notification_def)
  from send_address_not_found [OF h1 h2 h3 h4] i
  have "snd (send mock_send adapter_without_user_email regular_notification [])
        = Inl (Error ''User email not found for notification 456'')
   \<and> mail_calls (fst (send mock_send adapter_without_user_email regular_notification [])) = []"
    by auto
  then show ?thesis using h1 h2 h3 h4 i by blast
qed

text \<open>
  C8: on an adapter without an injected backend, \<open>send\<close> fails with the error
  \<^verbatim>\<open>Backend not injected\<close> and calls nothing at all: no renderer, no lookup, no
  attachment read, no mail call. This holds for every notification, account-bound or
  one-off, also for a one-off notification whose recipient needs no backend.
\<close>

theorem send_without_backend:
  assumes "backend this = None"
  shows "send sgMail this notification context = ([], Inl (Error ''Backend not injected''))"
  using assms by (simp add: send_def reject_def)

theorem send_without_backend_witness:
  "backend (test_adapter\<lparr>backend := None\<rparr>) = None
   \<and> send mock_send (test_adapter\<lparr>backend := None\<rparr>) one_off_notification []
       = ([], Inl (Error ''Backend not injected''))
   \<and> send mock_send (test_adapter\<lparr>backend := None\<rparr>) regular_notification []
       = ([], Inl (Error ''Backend not injected''))"
  using send_without_backend [of "test_adapter\<lparr>backend := None\<rparr>" mock_send one_off_notification "[]"]
        send_without_backend [of "test_adapter\<lparr>backend := None\<rparr>" mock_send regular_notification "[]"]
  by simp

text \<open>
  C9: for every notification with attachments, if \<open>send\<close> issues the read of
  attachment \<open>i\<close> and that read fails with \<open>e\<close>, then no outbound mail call is made
  (so no partial attachment set is sent), and \<open>send\<close> fails with the unchanged error
  of a failed read. That error is \<open>e\<close> itself whenever attachment \<open>i\<close> is the only
  one whose read fails or, more generally, the first one whose read rejects.
\<close>

theorem send_attachment_read_fails:
  assumes "attachments n = Some atts"
    and "i < length atts"
    and "read (afile (atts ! i)) = Inl e"
    and "ReadCall i \<in> set (fst (send sgMail this n c))"
  shows "mail_calls (fst (send sgMail this n c)) = []
         \<and> (\<exists>j e'. j < length atts \<and> read (afile (atts ! j)) = Inl e'
                \<and> snd (send sgMail this n c) = Inl e')
         \<and> ((\<forall>j < length atts. j \<noteq> i \<longrightarrow>
                (\<forall>e'. read (afile (atts ! j)) = Inl e' \<longrightarrow>
                   settles (afile (atts ! i)) < settles (afile (atts ! j))))
              \<longrightarrow> snd (send sgMail this n c) = Inl e)"
proof (cases rule: send_cases [of this sgMail n c])
  case no_backend
  then show ?thesis using assms(4) by simp
next
  case (render_fails b e')
  then show ?thesis using assms(4) by simp
next
  case (id_falsy b t)
  then show ?thesis using assms(4) by simp
next
  case (recipient_fails b t e')
  then show ?thesis using assms(4) by (simp add: ReadCall_in_recipient_trace)
next
  case (without_attachments b t address md')
  then show ?thesis using assms(1,2) by auto
next
  case (attachments_fail b t address atts' e0)
  then have a: "atts' = atts" using assms(1) by simp
  from attachments_fail(7) a have f: "snd (prepareAttachments atts) = Inl e0" by simp
  from prepareAttachments_Inl[OF f] obtain j where j: "j < length atts"
    "read (afile (atts ! j)) = Inl e0"
    "\<forall>k < length atts. \<forall>e'. read (afile (atts ! k)) = Inl e'
        \<longrightarrow> settles (afile (atts ! j)) \<le> settles (afile (atts ! k))" by blast
  have r: "snd (send sgMail this n c) = Inl e0" using attachments_fail(8) by simp
  have m: "mail_calls (fst (send sgMail this n c)) = []"
    using attachments_fail(8)
    by (simp add: mail_calls_append mail_calls_getRecipientEmail mail_calls_reads)
  have first: "e0 = e"
    if h: "\<forall>j < length atts. j \<noteq> i \<longrightarrow>
             (\<forall>e'. read (afile (atts ! j)) = Inl e' \<longrightarrow>
                settles (afile (atts ! i)) < settles (afile (atts ! j)))"
  proof (cases "j = i")
    case True
    then show ?thesis using j(2) assms(3) by simp
  next
    case False
    then have "settles (afile (atts ! i)) < settles (afile (atts ! j))" using h j(1,2) by blast
    moreover have "settles (afile (atts ! j)) \<le> settles (afile (atts ! i))"
      using j(3) assms(2,3) by blast
    ultimately show ?thesis by simp
  qed
  show ?thesis using m r j(1,2) first by blast
next
  case (with_attachments b t address atts' prepared md')
  then have "snd (prepareAttachments atts) = Inr prepared" using assms(1) by simp
  from prepareAttachments_Inr(2)[OF this assms(2)] assms(3) show ?thesis by simp
qed

theorem send_attachment_read_fails_witness:
  "attachments notification_with_broken_attachment
     = Some [pdf_attachment, broken_attachment, png_attachment]
   \<and> (1::nat) < length [pdf_attachment, broken_attachment, png_attachment]
   \<and> read (afile ([pdf_attachment, broken_attachment, png_attachment] ! 1))
        = Inl (Error ''Storage unavailable'')
   \<and> ReadCall 1
        \<in> set (fst (send mock_send test_adapter notification_with_broken_attachment []))
   \<and> mail_calls (fst (send mock_send test_adapter notification_with_broken_attachment [])) = []
   \<and> snd (send mock_send test_adapter notification_with_broken_attachment [])
        = Inl (Error ''Storage unavailable'')"
proof -
  let ?atts = "[pdf_attachment, broken_attachment, png_attachment]"
  have h1: "attachments notification_with_broken_attachment = Some ?atts"
    by (simp add: notification_with_broken_attachment_def)
  have h2: "(1::nat) < length ?atts" by simp
  have h3: "read (afile (?atts ! 1)) = Inl (Error ''Storage unavailable'')"
    by (simp add: broken_attachment_def)
  have h4: "ReadCall 1
        \<in> set (fst (send mock_send test_adapter notification_with_broken_attachment []))"
    by (simp add: run_defs)
  have only: "\<forall>j < length ?atts. j \<noteq> 1 \<longrightarrow>
                (\<forall>e'. read (afile (?atts ! j)) = Inl e' \<longrightarrow>
                   settles (afile (?atts ! 1)) < settles (afile (?atts ! j)))"
    by (simp add: pdf_attachment_def png_attachment_def broken_attachment_def
        less_Suc_eq numeral_3_eq_3)
  from send_attachment_read_fails [OF h1 h2 h3 h4] only
  have "mail_calls (fst (send mock_send test_adapter notification_with_broken_attachment [])) = []
   \<and> snd (send mock_send test_adapter notification_with_broken_attachment [])
        = Inl (Error ''Storage unavailable'')"
    by blast
  then show ?thesis using h1 h2 h3 h4 by blast
qed

text \<open>
  C10: if \<open>fromName\<close> is configured as the empty string, every outbound request that
  \<open>send\<close> makes has the bare \<open>fromEmail\<close> string as its \<open>from\<close> field, never the
  pair of \<open>fromEmail\<close> and the empty name: the empty name is treated as an absent
  one.
\<close>

theorem send_empty_fromName:
  assumes "fromName (config this) = Some []"
  shows "\<forall>md. MailSend md \<in> set (fst (send sgMail this n c)) \<longrightarrow>
           mail_from md = Bare (fromEmail (config this))
           \<and> mail_from md \<noteq> EmailData (fromEmail (config this)) []"
proof (cases rule: send_cases [of this sgMail n c])
  case no_backend
  then show ?thesis by simp
next
  case (render_fails b e)
  then show ?thesis by simp
next
  case (id_falsy b t)
  then show ?thesis by simp
next
  case (recipient_fails b t e)
  then show ?thesis by (simp add: MailSend_in_recipient_trace)
next
  case (without_attachments b t address md')
  then show ?thesis using assms by (auto simp: MailSend_in_recipient_trace)
next
  case (attachments_fail b t address atts e)
  then show ?thesis by (auto simp: MailSend_in_recipient_trace)
next
  case (with_attachments b t address atts prepared md')
  then show ?thesis using assms by (auto simp: MailSend_in_recipient_trace)
qed

theorem send_empty_fromName_witness:
  "fromName (config adapter_with_empty_fromName) = Some []
   \<and> MailSend (expected_mail\<lparr>mail_from := Bare ''noreply@example.com''\<rparr>)
        \<in> set (fst (send mock_send adapter_with_empty_fromName regular_notification []))
   \<and> mail_from (expected_mail\<lparr>mail_from := Bare ''noreply@example.com''\<rparr>)
        = Bare (fromEmail (config adapter_with_empty_fromName))"
proof -
  have h: "fromName (config adapter_with_empty_fromName) = Some []"
    by (simp add: adapter_with_empty_fromName_def)
  have m: "MailSend (expected_mail\<lparr>mail_from := Bare ''noreply@example.com''\<rparr>)
        \<in> set (fst (send mock_send adapter_with_empty_fromName regular_notification []))"
    by (simp add: run_defs)
  show ?thesis
    using h m send_empty_fromName [OF h, of mock_send regular_notification "[]"] by blast
qed

end
